theory Spec2Isabelle
  imports Complex_Main
begin

section \<open>The control sap.f.IllustratedMessage\<close>

text \<open>
  A shallow embedding of \<^verbatim>\<open>src/sap.f/src/sap/f/IllustratedMessage.js\<close>.
  The control is a record of its properties, hidden aggregations and private members;
  every method takes the control (and, where it constructs children or talks to the
  \<^verbatim>\<open>ResizeHandler\<close>, the framework state) and returns the updated one.
  A private method \<^verbatim>\<open>_name\<close> of the source is written \<open>p_name\<close>, since an
  identifier cannot start with an underscore.
\<close>

subsection \<open>JavaScript values\<close>

text \<open>
  A JavaScript Number: every finite double is a rational, so comparisons between finite
  values are the comparisons of \<open>rat\<close>; \<open>+0\<close> and \<open>-0\<close> are both \<open>Finite 0\<close>.
\<close>

datatype Number = Finite rat | NaN | PosInfinity | NegInfinity

text \<open>The truthiness of a Number (\<^verbatim>\<open>!iWidth\<close> is its negation): 0 and NaN are falsy.\<close>

fun truthy :: "Number \<Rightarrow> bool" where
  "truthy (Finite r) = (r \<noteq> 0)"
| "truthy NaN = False"
| "truthy PosInfinity = True"
| "truthy NegInfinity = True"

text \<open>The operator \<^verbatim>\<open><=\<close> on Numbers: false whenever an operand is NaN.\<close>

fun js_le :: "Number \<Rightarrow> Number \<Rightarrow> bool" where
  "js_le NaN _ = False"
| "js_le _ NaN = False"
| "js_le (Finite a) (Finite b) = (a \<le> b)"
| "js_le NegInfinity _ = True"
| "js_le _ PosInfinity = True"
| "js_le PosInfinity _ = False"
| "js_le (Finite _) NegInfinity = False"

text \<open>
  A value that is a string or \<^verbatim>\<open>undefined\<close>/\<^verbatim>\<open>null\<close> (\<open>None\<close>): the result of an
  array read, of a lookup in an object, of \<^verbatim>\<open>getText\<close> with \<^verbatim>\<open>bIgnoreKeyFallback\<close>.
\<close>

type_synonym jsstring = "string option"

text \<open>\<^verbatim>\<open>a + v\<close> for a string \<open>a\<close>: \<^verbatim>\<open>undefined\<close> is appended as the text "undefined".\<close>

definition str_plus :: "string \<Rightarrow> jsstring \<Rightarrow> string" where
  "str_plus a v = a @ (case v of None \<Rightarrow> ''undefined'' | Some b \<Rightarrow> b)"

text \<open>
  \<^verbatim>\<open>s.split(sep)\<close> for a separator of one character: the segments between the
  separators, in order; a string without separator is the only segment.
\<close>

fun js_split :: "char \<Rightarrow> string \<Rightarrow> string list" where
  "js_split sep [] = [[]]"
| "js_split sep (c # cs) =
     (if c = sep then [] # js_split sep cs
      else (case js_split sep cs of
              [] \<Rightarrow> [[c]]
            | w # ws \<Rightarrow> (c # w) # ws))"

text \<open>\<^verbatim>\<open>a[i]\<close>: reading an array beyond its length gives \<^verbatim>\<open>undefined\<close>.\<close>

definition js_index :: "string list \<Rightarrow> nat \<Rightarrow> jsstring" where
  "js_index a i = (if i < length a then Some (a ! i) else None)"

text \<open>
  \<^verbatim>\<open>toUpperCase\<close> and \<^verbatim>\<open>toLowerCase\<close> on the letters a-z and A-Z; every other
  character is left as it is (the strings of this control are ASCII identifiers).
\<close>

definition lower_letters :: string where
  "lower_letters = ''abcdefghijklmnopqrstuvwxyz''"

definition upper_letters :: string where
  "upper_letters = ''ABCDEFGHIJKLMNOPQRSTUVWXYZ''"

definition upper_char :: "char \<Rightarrow> char" where
  "upper_char c = (case map_of (zip lower_letters upper_letters) c of Some u \<Rightarrow> u | None \<Rightarrow> c)"

definition lower_char :: "char \<Rightarrow> char" where
  "lower_char c = (case map_of (zip upper_letters lower_letters) c of Some l \<Rightarrow> l | None \<Rightarrow> c)"

definition toUpperCase :: "string \<Rightarrow> string" where
  "toUpperCase s = map upper_char s"

definition toLowerCase :: "string \<Rightarrow> string" where
  "toLowerCase s = map lower_char s"

subsection \<open>The child controls and the framework\<close>

text \<open>
  Modelled from the spec: the child controls \<^verbatim>\<open>sap.m.Text\<close>, \<^verbatim>\<open>sap.m.Title\<close>,
  \<^verbatim>\<open>sap.m.FormattedText\<close> and \<^verbatim>\<open>sap.f.Illustration\<close> are not under src/. A child
  is a record of an object identity (\<open>_oid\<close>, given by the constructor) and of the
  properties the IllustratedMessage writes; each property holds the value the setter was
  last called with.
\<close>

record Text =
  text_oid :: nat
  text_text :: jsstring

record Title =
  title_oid :: nat
  title_text :: jsstring

record FormattedText =
  ftext_oid :: nat
  htmlText :: jsstring

record Illustration =
  ill_oid :: nat
  ill_set :: jsstring
  ill_media :: jsstring
  ill_type :: jsstring

text \<open>
  Modelled from the spec: the framework services the control calls, which are not under
  src/. \<open>objCount\<close> counts the controls constructed so far and names the next one;
  \<open>aResizeListeners\<close> is the registry of the \<^verbatim>\<open>ResizeHandler\<close>: the listener's
  id and the id of the control it observes; \<open>iIdCounter\<close> numbers the listeners.
\<close>

record Framework =
  objCount :: nat
  aResizeListeners :: "(nat \<times> string) list"
  iIdCounter :: nat

text \<open>Modelled from the spec: the constructors of the children, missing from src/; a new
  control has a fresh identity and empty string properties.\<close>

definition new_Text :: "Framework \<Rightarrow> Text \<times> Framework" where
  "new_Text f = (\<lparr>text_oid = objCount f, text_text = Some []\<rparr>, f\<lparr>objCount := Suc (objCount f)\<rparr>)"

definition new_Title :: "Framework \<Rightarrow> Title \<times> Framework" where
  "new_Title f = (\<lparr>title_oid = objCount f, title_text = Some []\<rparr>, f\<lparr>objCount := Suc (objCount f)\<rparr>)"

definition new_FormattedText :: "Framework \<Rightarrow> FormattedText \<times> Framework" where
  "new_FormattedText f =
     (\<lparr>ftext_oid = objCount f, htmlText = Some []\<rparr>, f\<lparr>objCount := Suc (objCount f)\<rparr>)"

definition new_Illustration :: "Framework \<Rightarrow> Illustration \<times> Framework" where
  "new_Illustration f =
     (\<lparr>ill_oid = objCount f, ill_set = Some [], ill_media = Some [], ill_type = Some []\<rparr>,
      f\<lparr>objCount := Suc (objCount f)\<rparr>)"

text \<open>Modelled from the spec: the property setters of the children, missing from src/.\<close>

definition setText :: "jsstring \<Rightarrow> Text \<Rightarrow> Text" where
  "setText v t = t\<lparr>text_text := v\<rparr>"

definition Title_setText :: "jsstring \<Rightarrow> Title \<Rightarrow> Title" where
  "Title_setText v t = t\<lparr>title_text := v\<rparr>"

definition setHtmlText :: "jsstring \<Rightarrow> FormattedText \<Rightarrow> FormattedText" where
  "setHtmlText v t = t\<lparr>htmlText := v\<rparr>"

definition setSet :: "jsstring \<Rightarrow> Illustration \<Rightarrow> Illustration" where
  "setSet v i = i\<lparr>ill_set := v\<rparr>"

definition setMedia :: "jsstring \<Rightarrow> Illustration \<Rightarrow> Illustration" where
  "setMedia v i = i\<lparr>ill_media := v\<rparr>"

definition setType :: "jsstring \<Rightarrow> Illustration \<Rightarrow> Illustration" where
  "setType v i = i\<lparr>ill_type := v\<rparr>"

text \<open>
  Modelled from the spec: \<^verbatim>\<open>ResizeHandler.register\<close> and \<^verbatim>\<open>ResizeHandler.deregister\<close>,
  missing from src/. Registering returns a new listener id and records the listener;
  deregistering removes the listener of that id.
\<close>

definition ResizeHandler_register :: "string \<Rightarrow> Framework \<Rightarrow> nat \<times> Framework" where
  "ResizeHandler_register oObject f =
     (iIdCounter f,
      f\<lparr>aResizeListeners := aResizeListeners f @ [(iIdCounter f, oObject)],
        iIdCounter := Suc (iIdCounter f)\<rparr>)"

definition ResizeHandler_deregister :: "nat \<Rightarrow> Framework \<Rightarrow> Framework" where
  "ResizeHandler_deregister h f =
     f\<lparr>aResizeListeners := filter (\<lambda>l. fst l \<noteq> h) (aResizeListeners f)\<rparr>"

subsection \<open>The control\<close>

text \<open>
  The properties and aggregations of the metadata (lines 85-189), the private members the
  methods write (\<^verbatim>\<open>_sIllustrationSet\<close>, \<^verbatim>\<open>_sIllustrationType\<close>,
  \<^verbatim>\<open>_sContentResizeHandlerId\<close>) and what the methods read of the base class: the
  control's id, its custom style classes and its DOM reference. \<open>domRef\<close> is \<open>None\<close>
  when the control is not rendered, and otherwise the width of the bounding rectangle of
  its DOM element. \<open>illustrationSize\<close> is the string of the enumeration value.
  A hidden aggregation is \<open>None\<close> while it is empty. \<open>sContentResizeHandlerId\<close> is
  \<open>None\<close> while the member is undefined or null.
\<close>

record IllustratedMessage =
  sId :: string
  description :: string
  enableFormattedText :: bool
  illustrationSize :: string
  illustrationType :: string
  title :: string
  additionalContent :: "nat list"
  agg_formattedText :: "FormattedText option"
  agg_illustration :: "Illustration option"
  agg_text :: "Text option"
  agg_title :: "Title option"
  sIllustrationSet :: jsstring
  sIllustrationType :: jsstring
  sContentResizeHandlerId :: "nat option"
  aCustomStyleClasses :: "string list"
  domRef :: "Number option"

type_synonym state = "IllustratedMessage \<times> Framework"

text \<open>A resource bundle: the text of a key, \<open>None\<close> where the bundle has none
  (\<^verbatim>\<open>getText(sKey, null, true)\<close> then returns undefined).\<close>

type_synonym ResourceBundle = "string \<Rightarrow> jsstring"

text \<open>Modelled from the spec: \<^verbatim>\<open>library.IllustratedMessageSize.Auto\<close> and
  \<^verbatim>\<open>library.IllustratedMessageType.NoSearchResults\<close>, of the library module that is
  not under src/.\<close>

definition IllustratedMessageSize_Auto :: string where
  "IllustratedMessageSize_Auto = ''Auto''"

definition IllustratedMessageType_NoSearchResults :: string where
  "IllustratedMessageType_NoSearchResults = ''sapIllus-NoSearchResults''"

text \<open>The static members (lines 196-216).\<close>

definition PREPENDS_DESCRIPTION :: string where
  "PREPENDS_DESCRIPTION = ''IllustratedMessage_DESCRIPTION_''"

definition PREPENDS_TITLE :: string where
  "PREPENDS_TITLE = ''IllustratedMessage_TITLE_''"

definition BREAK_POINTS_DIALOG :: Number where
  "BREAK_POINTS_DIALOG = Finite 679"

definition BREAK_POINTS_SPOT :: Number where
  "BREAK_POINTS_SPOT = Finite 319"

definition BREAK_POINTS_BASE :: Number where
  "BREAK_POINTS_BASE = Finite 259"

definition MEDIA :: "(string \<times> string) list" where
  "MEDIA =
     [(''BASE'', ''sapFIllustratedMessage-Base''),
      (''SPOT'', ''sapFIllustratedMessage-Spot''),
      (''DIALOG'', ''sapFIllustratedMessage-Dialog''),
      (''SCENE'', ''sapFIllustratedMessage-Scene'')]"

text \<open>\<^verbatim>\<open>IllustratedMessage.MEDIA[k]\<close>: undefined for a key the object does not have.\<close>

definition MEDIA_at :: "string \<Rightarrow> jsstring" where
  "MEDIA_at k = map_of MEDIA k"

text \<open>Modelled from the spec: \<^verbatim>\<open>toggleStyleClass\<close> of the base class, missing from
  src/: the class is added (once) when \<open>bAdd\<close> holds and removed otherwise.\<close>

definition toggleStyleClass :: "string \<Rightarrow> bool \<Rightarrow> IllustratedMessage \<Rightarrow> IllustratedMessage" where
  "toggleStyleClass sStyleClass bAdd c =
     (if bAdd then
        (if sStyleClass \<in> set (aCustomStyleClasses c) then c
         else c\<lparr>aCustomStyleClasses := aCustomStyleClasses c @ [sStyleClass]\<rparr>)
      else c\<lparr>aCustomStyleClasses := removeAll sStyleClass (aCustomStyleClasses c)\<rparr>)"

subsection \<open>Lifecycle methods, getters and setters\<close>

text \<open>\<^verbatim>\<open>_updateInternalIllustrationSetAndType\<close> (lines 393-398).\<close>

definition p_updateInternalIllustrationSetAndType ::
    "string \<Rightarrow> IllustratedMessage \<Rightarrow> IllustratedMessage" where
  "p_updateInternalIllustrationSetAndType sValue c =
     (let aValues = js_split CHR ''-'' sValue
      in c\<lparr>sIllustrationSet := js_index aValues 0, sIllustrationType := js_index aValues 1\<rparr>)"

text \<open>\<^verbatim>\<open>init\<close> (lines 222-224).\<close>

definition init :: "IllustratedMessage \<Rightarrow> IllustratedMessage" where
  "init c = p_updateInternalIllustrationSetAndType (illustrationType c) c"

text \<open>\<^verbatim>\<open>setIllustrationType\<close> (lines 243-251); \<^verbatim>\<open>setProperty\<close> stores the value.\<close>

definition setIllustrationType :: "string \<Rightarrow> IllustratedMessage \<Rightarrow> IllustratedMessage" where
  "setIllustrationType sValue c =
     (if illustrationType c = sValue then c
      else (p_updateInternalIllustrationSetAndType sValue c)\<lparr>illustrationType := sValue\<rparr>)"

text \<open>
  The construction of a control with the id \<open>sid\<close>: the default values of the metadata,
  then \<^verbatim>\<open>init\<close>.
\<close>

definition new_IllustratedMessage :: "string \<Rightarrow> IllustratedMessage" where
  "new_IllustratedMessage sid =
     init \<lparr>sId = sid, description = [], enableFormattedText = False,
           illustrationSize = IllustratedMessageSize_Auto,
           illustrationType = IllustratedMessageType_NoSearchResults,
           title = [], additionalContent = [],
           agg_formattedText = None, agg_illustration = None, agg_text = None,
           agg_title = None, sIllustrationSet = None, sIllustrationType = None,
           sContentResizeHandlerId = None, aCustomStyleClasses = [], domRef = None\<rparr>"

text \<open>\<^verbatim>\<open>_getDefaultDescription\<close> (lines 258-260).\<close>

definition p_getDefaultDescription :: "ResourceBundle \<Rightarrow> IllustratedMessage \<Rightarrow> jsstring" where
  "p_getDefaultDescription rb c = rb (str_plus PREPENDS_DESCRIPTION (sIllustrationType c))"

text \<open>\<^verbatim>\<open>_getFormattedText\<close> (lines 278-295).\<close>

definition p_getFormattedText :: "ResourceBundle \<Rightarrow> state \<Rightarrow> FormattedText \<times> state" where
  "p_getFormattedText rb s =
     (let c = fst s; f = snd s;
          sDescription = description c;
          (oFormattedText, f1) =
             (case agg_formattedText c of
                None \<Rightarrow> new_FormattedText f
              | Some t \<Rightarrow> (t, f));
          oFormattedText1 =
             (if sDescription \<noteq> [] then setHtmlText (Some sDescription) oFormattedText
              else setHtmlText (p_getDefaultDescription rb c) oFormattedText)
      in (oFormattedText1, (c\<lparr>agg_formattedText := Some oFormattedText1\<rparr>, f1)))"

text \<open>\<^verbatim>\<open>_getIllustration\<close> (lines 302-312).\<close>

definition p_getIllustration :: "state \<Rightarrow> Illustration \<times> state" where
  "p_getIllustration s =
     (let c = fst s; f = snd s
      in (case agg_illustration c of
            None \<Rightarrow>
              (let (oIllustration, f1) = new_Illustration f
               in (oIllustration, (c\<lparr>agg_illustration := Some oIllustration\<rparr>, f1)))
          | Some oIllustration \<Rightarrow> (oIllustration, s)))"

text \<open>\<^verbatim>\<open>_getText\<close> (lines 323-340).\<close>

definition p_getText :: "ResourceBundle \<Rightarrow> state \<Rightarrow> Text \<times> state" where
  "p_getText rb s =
     (let c = fst s; f = snd s;
          sDescription = description c;
          (oText, f1) =
             (case agg_text c of
                None \<Rightarrow> new_Text f
              | Some t \<Rightarrow> (t, f));
          oText1 =
             (if sDescription \<noteq> [] then setText (Some sDescription) oText
              else setText (p_getDefaultDescription rb c) oText)
      in (oText1, (c\<lparr>agg_text := Some oText1\<rparr>, f1)))"

text \<open>\<^verbatim>\<open>_getTitle\<close> (lines 347-364).\<close>

definition p_getTitle :: "ResourceBundle \<Rightarrow> state \<Rightarrow> Title \<times> state" where
  "p_getTitle rb s =
     (let c = fst s; f = snd s;
          sTitle = title c;
          (oTitle, f1) =
             (case agg_title c of
                None \<Rightarrow> new_Title f
              | Some t \<Rightarrow> (t, f));
          oTitle1 =
             (if sTitle \<noteq> [] then Title_setText (Some sTitle) oTitle
              else Title_setText (rb (str_plus PREPENDS_TITLE (sIllustrationType c))) oTitle)
      in (oTitle1, (c\<lparr>agg_title := Some oTitle1\<rparr>, f1)))"

text \<open>
  \<^verbatim>\<open>_getDescription\<close> (lines 269-271). The two children have different classes:
  the result tells which one was returned.
\<close>

definition p_getDescription :: "ResourceBundle \<Rightarrow> state \<Rightarrow> (FormattedText + Text) \<times> state" where
  "p_getDescription rb s =
     (if enableFormattedText (fst s)
      then (let (t, s1) = p_getFormattedText rb s in (Inl t, s1))
      else (let (t, s1) = p_getText rb s in (Inr t, s1)))"

subsection \<open>Media and resize handling\<close>

text \<open>
  \<^verbatim>\<open>_updateMediaStyle\<close> (lines 437-448): the body of the \<^verbatim>\<open>forEach\<close> for one key
  \<open>sMedia\<close> of \<^verbatim>\<open>MEDIA\<close> and its value \<open>sClass\<close> = \<^verbatim>\<open>MEDIA[sMedia]\<close>, then the
  loop over the keys in the order of the object.
\<close>

definition updateMediaStyle_body :: "jsstring \<Rightarrow> string \<times> string \<Rightarrow> state \<Rightarrow> state" where
  "updateMediaStyle_body sCurrentMedia kv s =
     (let sMedia = fst kv; sClass = snd kv;
          bEnable = (sCurrentMedia = Some sClass);
          sIdMedia = take 1 sMedia @ toLowerCase (drop 1 sMedia);
          s1 = (toggleStyleClass sClass bEnable (fst s), snd s)
      in if bEnable \<and> sCurrentMedia \<noteq> MEDIA_at ''BASE'' then
           (let (oIllustration, s2) = p_getIllustration s1;
                oIllustration1 =
                  setType (sIllustrationType (fst s2))
                    (setMedia (Some sIdMedia)
                      (setSet (sIllustrationSet (fst s2)) oIllustration))
            in ((fst s2)\<lparr>agg_illustration := Some oIllustration1\<rparr>, snd s2))
         else s1)"

definition p_updateMediaStyle :: "jsstring \<Rightarrow> state \<Rightarrow> state" where
  "p_updateMediaStyle sCurrentMedia s = fold (updateMediaStyle_body sCurrentMedia) MEDIA s"

text \<open>\<^verbatim>\<open>_updateMedia\<close> (lines 416-430).\<close>

definition p_updateMedia :: "Number \<Rightarrow> state \<Rightarrow> state" where
  "p_updateMedia iWidth s =
     (if \<not> truthy iWidth then s
      else if js_le iWidth BREAK_POINTS_BASE then p_updateMediaStyle (MEDIA_at ''BASE'') s
      else if js_le iWidth BREAK_POINTS_SPOT then p_updateMediaStyle (MEDIA_at ''SPOT'') s
      else if js_le iWidth BREAK_POINTS_DIALOG then p_updateMediaStyle (MEDIA_at ''DIALOG'') s
      else p_updateMediaStyle (MEDIA_at ''SCENE'') s)"

text \<open>\<^verbatim>\<open>_onResize\<close> (lines 405-409); the argument is \<^verbatim>\<open>oEvent.size.width\<close>.\<close>

definition p_onResize :: "Number \<Rightarrow> state \<Rightarrow> state" where
  "p_onResize iCurrentWidth s = p_updateMedia iCurrentWidth s"

text \<open>\<^verbatim>\<open>_updateDomSize\<close> (lines 374-387).\<close>

definition p_updateDomSize :: "state \<Rightarrow> state" where
  "p_updateDomSize s =
     (case domRef (fst s) of
        None \<Rightarrow> s
      | Some width \<Rightarrow>
          (let sSize = illustrationSize (fst s)
           in if sSize = IllustratedMessageSize_Auto then p_updateMedia width s
              else p_updateMediaStyle (MEDIA_at (toUpperCase sSize)) s))"

text \<open>\<^verbatim>\<open>_registerResizeHandler\<close> and \<^verbatim>\<open>_deRegisterResizeHandler\<close> (lines 481-497), for
  the only handler member there is, \<^verbatim>\<open>_sContentResizeHandlerId\<close>.\<close>

definition p_registerResizeHandler :: "state \<Rightarrow> state" where
  "p_registerResizeHandler s =
     (case sContentResizeHandlerId (fst s) of
        None \<Rightarrow>
          (let (h, f1) = ResizeHandler_register (sId (fst s)) (snd s)
           in ((fst s)\<lparr>sContentResizeHandlerId := Some h\<rparr>, f1))
      | Some _ \<Rightarrow> s)"

definition p_deRegisterResizeHandler :: "state \<Rightarrow> state" where
  "p_deRegisterResizeHandler s =
     (case sContentResizeHandlerId (fst s) of
        None \<Rightarrow> s
      | Some h \<Rightarrow>
          ((fst s)\<lparr>sContentResizeHandlerId := None\<rparr>, ResizeHandler_deregister h (snd s)))"

text \<open>\<^verbatim>\<open>_attachResizeHandlers\<close> and \<^verbatim>\<open>_detachResizeHandlers\<close> (lines 458-472).\<close>

definition p_attachResizeHandlers :: "state \<Rightarrow> state" where
  "p_attachResizeHandlers s =
     (let sIllustrationSize = illustrationSize (fst s)
      in if domRef (fst s) \<noteq> None \<and> sIllustrationSize = IllustratedMessageSize_Auto
         then p_registerResizeHandler s else s)"

definition p_detachResizeHandlers :: "state \<Rightarrow> state" where
  "p_detachResizeHandlers s = p_deRegisterResizeHandler s"

text \<open>\<^verbatim>\<open>onBeforeRendering\<close>, \<^verbatim>\<open>onAfterRendering\<close> and \<^verbatim>\<open>exit\<close> (lines 226-237).\<close>

definition onBeforeRendering :: "state \<Rightarrow> state" where
  "onBeforeRendering s = p_detachResizeHandlers s"

definition onAfterRendering :: "state \<Rightarrow> state" where
  "onAfterRendering s = p_attachResizeHandlers (p_updateDomSize s)"

definition exit :: "state \<Rightarrow> state" where
  "exit s = p_detachResizeHandlers s"

subsection \<open>The control in its environment\<close>

text \<open>
  What can happen to a control between its construction and its destruction: the
  lifecycle hooks and the methods above, called by the framework, the renderer and the
  application. \<open>Rendered d\<close> is the renderer writing (or removing, \<open>None\<close>) the DOM
  element between \<^verbatim>\<open>onBeforeRendering\<close> and \<^verbatim>\<open>onAfterRendering\<close>;
  \<open>SetIllustrationSize\<close> is the generated setter of the property.
\<close>

datatype event =
    OnBeforeRendering
  | OnAfterRendering
  | Exit
  | SetIllustrationType string
  | SetIllustrationSize string
  | Rendered "Number option"
  | OnResize Number
  | GetDescription
  | GetTitle
  | GetIllustration

fun step :: "ResourceBundle \<Rightarrow> event \<Rightarrow> state \<Rightarrow> state" where
  "step rb OnBeforeRendering s = onBeforeRendering s"
| "step rb OnAfterRendering s = onAfterRendering s"
| "step rb Exit s = exit s"
| "step rb (SetIllustrationType v) s = (setIllustrationType v (fst s), snd s)"
| "step rb (SetIllustrationSize v) s = ((fst s)\<lparr>illustrationSize := v\<rparr>, snd s)"
| "step rb (Rendered d) s = ((fst s)\<lparr>domRef := d\<rparr>, snd s)"
| "step rb (OnResize w) s = p_onResize w s"
| "step rb GetDescription s = snd (p_getDescription rb s)"
| "step rb GetTitle s = snd (p_getTitle rb s)"
| "step rb GetIllustration s = snd (p_getIllustration s)"

definition run :: "ResourceBundle \<Rightarrow> event list \<Rightarrow> state \<Rightarrow> state" where
  "run rb evs s = fold (step rb) evs s"

text \<open>The resize listeners registered for the control, by their ids.\<close>

definition listeners_of :: "state \<Rightarrow> nat list" where
  "listeners_of s = map fst (filter (\<lambda>l. snd l = sId (fst s)) (aResizeListeners (snd s)))"

text \<open>
  The invariant of the handler member: the listeners registered for the control are the
  one the member names, and none when the member is empty.
\<close>

definition handler_inv :: "state \<Rightarrow> bool" where
  "handler_inv s =
     (listeners_of s = (case sContentResizeHandlerId (fst s) of None \<Rightarrow> [] | Some h \<Rightarrow> [h]))"

subsection \<open>The documented format of the illustration type\<close>

text \<open>
  The documentation of the \<^verbatim>\<open>illustrationType\<close> property (lines 125-130) names two
  parts of a value such as "sapIllus-UnableToLoad": first the illustration set, the text
  before the first "-", and second the illustration type, the text between the first "-"
  and the second one (or the end of the string). These two functions are written from
  that description, not from the code.
\<close>

definition segment_before_first_dash :: "string \<Rightarrow> string" where
  "segment_before_first_dash s = takeWhile (\<lambda>c. c \<noteq> CHR ''-'') s"

definition segment_after_first_dash :: "string \<Rightarrow> string" where
  "segment_after_first_dash s =
     takeWhile (\<lambda>c. c \<noteq> CHR ''-'') (drop 1 (dropWhile (\<lambda>c. c \<noteq> CHR ''-'') s))"

text \<open>The cache agrees with the \<^verbatim>\<open>illustrationType\<close> property.\<close>

definition cache_consistent :: "IllustratedMessage \<Rightarrow> bool" where
  "cache_consistent c =
     (sIllustrationSet c = Some (segment_before_first_dash (illustrationType c)) \<and>
      sIllustrationType c =
        (if CHR ''-'' \<in> set (illustrationType c)
         then Some (segment_after_first_dash (illustrationType c)) else None))"

subsection \<open>Example states\<close>

text \<open>A framework in which another control already observes its size, a new
  IllustratedMessage in it, and a resource bundle with the default texts of its type.\<close>

definition framework0 :: Framework where
  "framework0 = \<lparr>objCount = 0, aResizeListeners = [(0, ''__button0'')], iIdCounter = 1\<rparr>"

definition message0 :: state where
  "message0 = (new_IllustratedMessage ''__message0'', framework0)"

definition bundle0 :: ResourceBundle where
  "bundle0 =
     map_of [(''IllustratedMessage_TITLE_NoSearchResults'', ''No Results Found''),
             (''IllustratedMessage_DESCRIPTION_NoSearchResults'', ''Try changing your search criteria.'')]"

section \<open>Properties\<close>

subsection \<open>The media style loop\<close>

text \<open>One pass of the loop of \<^verbatim>\<open>_updateMediaStyle\<close>, field by field.\<close>

lemma updateMediaStyle_body_form:
  "updateMediaStyle_body cur kv s =
     ((fst s)\<lparr>aCustomStyleClasses :=
          (if cur = Some (snd kv)
           then (if snd kv \<in> set (aCustomStyleClasses (fst s)) then aCustomStyleClasses (fst s)
                 else aCustomStyleClasses (fst s) @ [snd kv])
           else removeAll (snd kv) (aCustomStyleClasses (fst s))),
        agg_illustration :=
          (if cur = Some (snd kv) \<and> cur \<noteq> MEDIA_at ''BASE''
           then Some ((case agg_illustration (fst s) of
                         None \<Rightarrow> fst (new_Illustration (snd s))
                       | Some i \<Rightarrow> i)
                      \<lparr>ill_set := sIllustrationSet (fst s),
                        ill_media := Some (take 1 (fst kv) @ toLowerCase (drop 1 (fst kv))),
                        ill_type := sIllustrationType (fst s)\<rparr>)
           else agg_illustration (fst s))\<rparr>,
      (snd s)\<lparr>objCount :=
          (if cur = Some (snd kv) \<and> cur \<noteq> MEDIA_at ''BASE'' \<and> agg_illustration (fst s) = None
           then Suc (objCount (snd s)) else objCount (snd s))\<rparr>)"
  by (cases s)
     (auto simp: updateMediaStyle_body_def toggleStyleClass_def p_getIllustration_def
        new_Illustration_def setType_def setMedia_def setSet_def Let_def
        split: option.splits prod.splits)

lemma fold_body_classes:
  "set (aCustomStyleClasses (fst (fold (updateMediaStyle_body cur) kvs s))) =
     (set (aCustomStyleClasses (fst s)) - {v \<in> snd ` set kvs. cur \<noteq> Some v})
       \<union> {v \<in> snd ` set kvs. cur = Some v}"
proof (induction kvs arbitrary: s)
  case Nil
  then show ?case by simp
next
  case (Cons kv kvs)
  have step: "set (aCustomStyleClasses (fst (updateMediaStyle_body cur kv s))) =
      (if cur = Some (snd kv) then insert (snd kv) (set (aCustomStyleClasses (fst s)))
       else set (aCustomStyleClasses (fst s)) - {snd kv})"
    by (auto simp add: updateMediaStyle_body_form)
  show ?case
    unfolding fold_simps Cons.IH step by auto
qed

lemma updateMediaStyle_classes:
  "set (aCustomStyleClasses (fst (p_updateMediaStyle cur s))) =
     (set (aCustomStyleClasses (fst s)) - {v \<in> snd ` set MEDIA. cur \<noteq> Some v})
       \<union> {v \<in> snd ` set MEDIA. cur = Some v}"
  by (simp only: p_updateMediaStyle_def fold_body_classes)

text \<open>What the loop never writes.\<close>

lemma fold_body_frame:
  "sId (fst (fold (updateMediaStyle_body cur) kvs s)) = sId (fst s) \<and>
   sContentResizeHandlerId (fst (fold (updateMediaStyle_body cur) kvs s)) =
     sContentResizeHandlerId (fst s) \<and>
   domRef (fst (fold (updateMediaStyle_body cur) kvs s)) = domRef (fst s) \<and>
   illustrationSize (fst (fold (updateMediaStyle_body cur) kvs s)) = illustrationSize (fst s) \<and>
   illustrationType (fst (fold (updateMediaStyle_body cur) kvs s)) = illustrationType (fst s) \<and>
   sIllustrationSet (fst (fold (updateMediaStyle_body cur) kvs s)) = sIllustrationSet (fst s) \<and>
   sIllustrationType (fst (fold (updateMediaStyle_body cur) kvs s)) = sIllustrationType (fst s) \<and>
   aResizeListeners (snd (fold (updateMediaStyle_body cur) kvs s)) = aResizeListeners (snd s) \<and>
   iIdCounter (snd (fold (updateMediaStyle_body cur) kvs s)) = iIdCounter (snd s)"
  by (induction kvs arbitrary: s) (simp_all add: updateMediaStyle_body_form)

lemma updateMediaStyle_frame:
  "sId (fst (p_updateMediaStyle cur s)) = sId (fst s)"
  "sContentResizeHandlerId (fst (p_updateMediaStyle cur s)) = sContentResizeHandlerId (fst s)"
  "domRef (fst (p_updateMediaStyle cur s)) = domRef (fst s)"
  "illustrationSize (fst (p_updateMediaStyle cur s)) = illustrationSize (fst s)"
  "illustrationType (fst (p_updateMediaStyle cur s)) = illustrationType (fst s)"
  "sIllustrationSet (fst (p_updateMediaStyle cur s)) = sIllustrationSet (fst s)"
  "sIllustrationType (fst (p_updateMediaStyle cur s)) = sIllustrationType (fst s)"
  "aResizeListeners (snd (p_updateMediaStyle cur s)) = aResizeListeners (snd s)"
  "iIdCounter (snd (p_updateMediaStyle cur s)) = iIdCounter (snd s)"
  using fold_body_frame [of cur MEDIA s] by (simp_all add: p_updateMediaStyle_def)

lemma toLowerCase_names:
  "toLowerCase ''ASE'' = ''ase''" "toLowerCase ''POT'' = ''pot''"
  "toLowerCase ''IALOG'' = ''ialog''" "toLowerCase ''CENE'' = ''cene''"
  by (simp_all add: toLowerCase_def lower_char_def upper_letters_def lower_letters_def)

text \<open>The inner Illustration after the loop, for each of the four media.\<close>

lemma updateMediaStyle_illustration_Base:
  "agg_illustration (fst (p_updateMediaStyle (Some ''sapFIllustratedMessage-Base'') s)) =
     agg_illustration (fst s)"
  "objCount (snd (p_updateMediaStyle (Some ''sapFIllustratedMessage-Base'') s)) = objCount (snd s)"
  by (simp_all add: p_updateMediaStyle_def MEDIA_def MEDIA_at_def updateMediaStyle_body_form)

lemma updateMediaStyle_illustration_Spot:
  "agg_illustration (fst (p_updateMediaStyle (Some ''sapFIllustratedMessage-Spot'') s)) =
     Some ((case agg_illustration (fst s) of
              None \<Rightarrow> fst (new_Illustration (snd s)) | Some i \<Rightarrow> i)
           \<lparr>ill_set := sIllustrationSet (fst s), ill_media := Some ''Spot'',
             ill_type := sIllustrationType (fst s)\<rparr>)"
  by (simp add: p_updateMediaStyle_def MEDIA_def MEDIA_at_def updateMediaStyle_body_form
        toLowerCase_names split: option.splits)

lemma updateMediaStyle_illustration_Dialog:
  "agg_illustration (fst (p_updateMediaStyle (Some ''sapFIllustratedMessage-Dialog'') s)) =
     Some ((case agg_illustration (fst s) of
              None \<Rightarrow> fst (new_Illustration (snd s)) | Some i \<Rightarrow> i)
           \<lparr>ill_set := sIllustrationSet (fst s), ill_media := Some ''Dialog'',
             ill_type := sIllustrationType (fst s)\<rparr>)"
  by (simp add: p_updateMediaStyle_def MEDIA_def MEDIA_at_def updateMediaStyle_body_form
        toLowerCase_names split: option.splits)

lemma updateMediaStyle_illustration_Scene:
  "agg_illustration (fst (p_updateMediaStyle (Some ''sapFIllustratedMessage-Scene'') s)) =
     Some ((case agg_illustration (fst s) of
              None \<Rightarrow> fst (new_Illustration (snd s)) | Some i \<Rightarrow> i)
           \<lparr>ill_set := sIllustrationSet (fst s), ill_media := Some ''Scene'',
             ill_type := sIllustrationType (fst s)\<rparr>)"
  by (simp add: p_updateMediaStyle_def MEDIA_def MEDIA_at_def updateMediaStyle_body_form
        toLowerCase_names split: option.splits)

lemma media_classes: "snd ` set MEDIA =
  {''sapFIllustratedMessage-Base'', ''sapFIllustratedMessage-Spot'',
   ''sapFIllustratedMessage-Dialog'', ''sapFIllustratedMessage-Scene''}"
  by (simp add: MEDIA_def)

lemma media_selected:
  "m \<in> snd ` set MEDIA \<Longrightarrow>
     set (aCustomStyleClasses (fst (p_updateMediaStyle (Some m) s))) \<inter> snd ` set MEDIA = {m}"
  unfolding updateMediaStyle_classes by auto

lemma media_others_kept:
  "set (aCustomStyleClasses (fst (p_updateMediaStyle cur s))) - snd ` set MEDIA =
     set (aCustomStyleClasses (fst s)) - snd ` set MEDIA"
  unfolding updateMediaStyle_classes by auto

subsection \<open>The example control, evaluated\<close>

lemma split_NoSearchResults:
  "js_split CHR ''-'' ''sapIllus-NoSearchResults'' = [''sapIllus'', ''NoSearchResults'']"
  by simp

lemma message0_value:
  "message0 =
     (\<lparr>sId = ''__message0'', description = [], enableFormattedText = False,
       illustrationSize = ''Auto'', illustrationType = ''sapIllus-NoSearchResults'',
       title = [], additionalContent = [], agg_formattedText = None,
       agg_illustration = None, agg_text = None, agg_title = None,
       sIllustrationSet = Some ''sapIllus'', sIllustrationType = Some ''NoSearchResults'',
       sContentResizeHandlerId = None, aCustomStyleClasses = [], domRef = None\<rparr>,
      \<lparr>objCount = 0, aResizeListeners = [(0, ''__button0'')], iIdCounter = 1\<rparr>)"
  unfolding message0_def new_IllustratedMessage_def init_def framework0_def
    p_updateInternalIllustrationSetAndType_def IllustratedMessageType_NoSearchResults_def
    IllustratedMessageSize_Auto_def split_NoSearchResults Let_def js_index_def
  by simp

lemma updateMediaStyle_message0:
  "p_updateMediaStyle (Some ''sapFIllustratedMessage-Base'') message0 =
     (fst message0\<lparr>aCustomStyleClasses := [''sapFIllustratedMessage-Base'']\<rparr>, snd message0)"
  "p_updateMediaStyle (Some ''sapFIllustratedMessage-Spot'') message0 =
     (fst message0\<lparr>aCustomStyleClasses := [''sapFIllustratedMessage-Spot''],
        agg_illustration := Some \<lparr>ill_oid = 0, ill_set = Some ''sapIllus'',
           ill_media = Some ''Spot'', ill_type = Some ''NoSearchResults''\<rparr>\<rparr>,
      snd message0\<lparr>objCount := 1\<rparr>)"
  "p_updateMediaStyle (Some ''sapFIllustratedMessage-Dialog'') message0 =
     (fst message0\<lparr>aCustomStyleClasses := [''sapFIllustratedMessage-Dialog''],
        agg_illustration := Some \<lparr>ill_oid = 0, ill_set = Some ''sapIllus'',
           ill_media = Some ''Dialog'', ill_type = Some ''NoSearchResults''\<rparr>\<rparr>,
      snd message0\<lparr>objCount := 1\<rparr>)"
  "p_updateMediaStyle (Some ''sapFIllustratedMessage-Scene'') message0 =
     (fst message0\<lparr>aCustomStyleClasses := [''sapFIllustratedMessage-Scene''],
        agg_illustration := Some \<lparr>ill_oid = 0, ill_set = Some ''sapIllus'',
           ill_media = Some ''Scene'', ill_type = Some ''NoSearchResults''\<rparr>\<rparr>,
      snd message0\<lparr>objCount := 1\<rparr>)"
  unfolding message0_value
  by (simp_all add: p_updateMediaStyle_def MEDIA_def MEDIA_at_def updateMediaStyle_body_form
        new_Illustration_def toLowerCase_names)

subsection \<open>Selecting the media from a width\<close>

text \<open>
  C1. For a positive width \<open>w\<close>, \<^verbatim>\<open>_updateMedia(w)\<close> is the call of
  \<^verbatim>\<open>_updateMediaStyle\<close> with one media style class: Base when \<open>w \<le> 259\<close>, Spot when
  \<open>259 < w \<le> 319\<close>, Dialog when \<open>319 < w \<le> 679\<close>, Scene when \<open>679 < w\<close> (also for
  the width Infinity); and of the four media style classes the control then carries
  that one only.
\<close>

theorem updateMedia_selects_one_media:
  assumes "0 < w"
  shows "(w \<le> 259 \<longrightarrow>
            p_updateMedia (Finite w) s = p_updateMediaStyle (Some ''sapFIllustratedMessage-Base'') s \<and>
            set (aCustomStyleClasses (fst (p_updateMedia (Finite w) s))) \<inter> snd ` set MEDIA =
              {''sapFIllustratedMessage-Base''}) \<and>
         (259 < w \<and> w \<le> 319 \<longrightarrow>
            p_updateMedia (Finite w) s = p_updateMediaStyle (Some ''sapFIllustratedMessage-Spot'') s \<and>
            set (aCustomStyleClasses (fst (p_updateMedia (Finite w) s))) \<inter> snd ` set MEDIA =
              {''sapFIllustratedMessage-Spot''}) \<and>
         (319 < w \<and> w \<le> 679 \<longrightarrow>
            p_updateMedia (Finite w) s = p_updateMediaStyle (Some ''sapFIllustratedMessage-Dialog'') s \<and>
            set (aCustomStyleClasses (fst (p_updateMedia (Finite w) s))) \<inter> snd ` set MEDIA =
              {''sapFIllustratedMessage-Dialog''}) \<and>
         (679 < w \<longrightarrow>
            p_updateMedia (Finite w) s = p_updateMediaStyle (Some ''sapFIllustratedMessage-Scene'') s \<and>
            set (aCustomStyleClasses (fst (p_updateMedia (Finite w) s))) \<inter> snd ` set MEDIA =
              {''sapFIllustratedMessage-Scene''}) \<and>
         p_updateMedia PosInfinity s = p_updateMediaStyle (Some ''sapFIllustratedMessage-Scene'') s"
proof -
  have sel: "p_updateMedia (Finite w) s =
      p_updateMediaStyle
        (Some (if w \<le> 259 then ''sapFIllustratedMessage-Base''
               else if w \<le> 319 then ''sapFIllustratedMessage-Spot''
               else if w \<le> 679 then ''sapFIllustratedMessage-Dialog''
               else ''sapFIllustratedMessage-Scene'')) s"
    using assms
    by (simp add: p_updateMedia_def BREAK_POINTS_BASE_def BREAK_POINTS_SPOT_def
          BREAK_POINTS_DIALOG_def MEDIA_at_def MEDIA_def)
  have inf: "p_updateMedia PosInfinity s =
      p_updateMediaStyle (Some ''sapFIllustratedMessage-Scene'') s"
    by (simp add: p_updateMedia_def BREAK_POINTS_BASE_def BREAK_POINTS_SPOT_def
          BREAK_POINTS_DIALOG_def MEDIA_at_def MEDIA_def)
  have one: "set (aCustomStyleClasses (fst (p_updateMediaStyle (Some m) s))) \<inter> snd ` set MEDIA = {m}"
    if "m \<in> snd ` set MEDIA" for m
    using that by (rule media_selected)
  have mem: "''sapFIllustratedMessage-Base'' \<in> snd ` set MEDIA"
       "''sapFIllustratedMessage-Spot'' \<in> snd ` set MEDIA"
       "''sapFIllustratedMessage-Dialog'' \<in> snd ` set MEDIA"
       "''sapFIllustratedMessage-Scene'' \<in> snd ` set MEDIA"
    by (simp_all add: media_classes)
  show ?thesis
    using inf one [OF mem(1)] one [OF mem(2)] one [OF mem(3)] one [OF mem(4)]
    by (simp add: sel)
qed

theorem updateMedia_selects_one_media_witness:
  "aCustomStyleClasses (fst (p_updateMedia (Finite 200) message0)) = [''sapFIllustratedMessage-Base''] \<and>
   aCustomStyleClasses (fst (p_updateMedia (Finite 300) message0)) = [''sapFIllustratedMessage-Spot''] \<and>
   aCustomStyleClasses (fst (p_updateMedia (Finite 500) message0)) = [''sapFIllustratedMessage-Dialog''] \<and>
   aCustomStyleClasses (fst (p_updateMedia (Finite 1000) message0)) = [''sapFIllustratedMessage-Scene'']"
proof -
  have "p_updateMedia (Finite 200) message0 =
          p_updateMediaStyle (Some ''sapFIllustratedMessage-Base'') message0"
    using updateMedia_selects_one_media [of 200 message0] by simp
  moreover have "p_updateMedia (Finite 300) message0 =
          p_updateMediaStyle (Some ''sapFIllustratedMessage-Spot'') message0"
    using updateMedia_selects_one_media [of 300 message0] by simp
  moreover have "p_updateMedia (Finite 500) message0 =
          p_updateMediaStyle (Some ''sapFIllustratedMessage-Dialog'') message0"
    using updateMedia_selects_one_media [of 500 message0] by simp
  moreover have "p_updateMedia (Finite 1000) message0 =
          p_updateMediaStyle (Some ''sapFIllustratedMessage-Scene'') message0"
    using updateMedia_selects_one_media [of 1000 message0] by simp
  ultimately show ?thesis
    by (simp add: updateMediaStyle_message0)
qed

text \<open>
  C10. \<^verbatim>\<open>_updateMedia\<close> with the width 0, or any falsy width (NaN), returns at once:
  the control and the framework state are unchanged.
\<close>

theorem updateMedia_falsy_width_unchanged:
  "\<not> truthy w \<Longrightarrow> p_updateMedia w s = s"
  by (simp add: p_updateMedia_def)

theorem updateMedia_falsy_width_unchanged_witness:
  "\<not> truthy (Finite 0) \<and> p_updateMedia (Finite 0) message0 = message0 \<and>
   \<not> truthy NaN \<and> p_updateMedia NaN message0 = message0"
  using updateMedia_falsy_width_unchanged [of "Finite 0" message0]
    updateMedia_falsy_width_unchanged [of NaN message0]
  by simp

text \<open>
  C9. \<^verbatim>\<open>setIllustrationType\<close> with the current value of the property returns the
  control as it is: no property, cache or aggregation changes.
\<close>

theorem setIllustrationType_same_value:
  "setIllustrationType (illustrationType c) c = c"
  by (simp add: setIllustrationType_def)

theorem setIllustrationType_same_value_witness:
  "setIllustrationType ''sapIllus-NoSearchResults'' (fst message0) = fst message0"
  using setIllustrationType_same_value [of "fst message0"]
  by (simp add: message0_value)

text \<open>
  C8. After \<^verbatim>\<open>_updateMediaStyle(m)\<close> for the value \<open>m\<close> of a key \<open>k\<close> of
  \<^verbatim>\<open>MEDIA\<close>, the control carries \<open>m\<close> and none of the other three media style
  classes, and its other style classes are as before. Unless \<open>k\<close> is BASE, the
  \<^verbatim>\<open>_illustration\<close> aggregation holds the Illustration (the one it held, or a new one)
  with its set, media and type set to the cached set, the media name (Spot, Dialog,
  Scene) and the cached type; for BASE the aggregation is as before.
\<close>

theorem updateMediaStyle_effect:
  assumes "(k, m) \<in> set MEDIA"
  shows "set (aCustomStyleClasses (fst (p_updateMediaStyle (Some m) s))) \<inter> snd ` set MEDIA = {m} \<and>
         set (aCustomStyleClasses (fst (p_updateMediaStyle (Some m) s))) - snd ` set MEDIA =
           set (aCustomStyleClasses (fst s)) - snd ` set MEDIA \<and>
         (if k = ''BASE''
          then agg_illustration (fst (p_updateMediaStyle (Some m) s)) = agg_illustration (fst s)
          else agg_illustration (fst (p_updateMediaStyle (Some m) s)) =
                 Some ((case agg_illustration (fst s) of
                          None \<Rightarrow> fst (new_Illustration (snd s))
                        | Some i \<Rightarrow> i)
                       \<lparr>ill_set := sIllustrationSet (fst s),
                         ill_media := Some (take 1 k @ toLowerCase (drop 1 k)),
                         ill_type := sIllustrationType (fst s)\<rparr>)) \<and>
         sIllustrationSet (fst (p_updateMediaStyle (Some m) s)) = sIllustrationSet (fst s) \<and>
         sIllustrationType (fst (p_updateMediaStyle (Some m) s)) = sIllustrationType (fst s) \<and>
         map (\<lambda>kv. take 1 (fst kv) @ toLowerCase (drop 1 (fst kv))) MEDIA =
           [''Base'', ''Spot'', ''Dialog'', ''Scene'']"
proof -
  from assms have m: "m \<in> snd ` set MEDIA"
    by force
  from assms have cases:
    "(k = ''BASE'' \<and> m = ''sapFIllustratedMessage-Base'') \<or>
     (k = ''SPOT'' \<and> m = ''sapFIllustratedMessage-Spot'') \<or>
     (k = ''DIALOG'' \<and> m = ''sapFIllustratedMessage-Dialog'') \<or>
     (k = ''SCENE'' \<and> m = ''sapFIllustratedMessage-Scene'')"
    by (simp add: MEDIA_def)
  have ill: "if k = ''BASE''
          then agg_illustration (fst (p_updateMediaStyle (Some m) s)) = agg_illustration (fst s)
          else agg_illustration (fst (p_updateMediaStyle (Some m) s)) =
                 Some ((case agg_illustration (fst s) of
                          None \<Rightarrow> fst (new_Illustration (snd s))
                        | Some i \<Rightarrow> i)
                       \<lparr>ill_set := sIllustrationSet (fst s),
                         ill_media := Some (take 1 k @ toLowerCase (drop 1 k)),
                         ill_type := sIllustrationType (fst s)\<rparr>)"
    using cases
    by (elim disjE conjE)
       (simp_all add: updateMediaStyle_illustration_Base updateMediaStyle_illustration_Spot
          updateMediaStyle_illustration_Dialog updateMediaStyle_illustration_Scene
          toLowerCase_names)
  have names: "map (\<lambda>kv. take 1 (fst kv) @ toLowerCase (drop 1 (fst kv))) MEDIA =
           [''Base'', ''Spot'', ''Dialog'', ''Scene'']"
    by (simp add: MEDIA_def toLowerCase_names)
  show ?thesis
    using media_selected [OF m, of s] media_others_kept [of "Some m" s] ill names
    by (simp only: updateMediaStyle_frame simp_thms)
qed

theorem updateMediaStyle_effect_witness:
  "(''DIALOG'', ''sapFIllustratedMessage-Dialog'') \<in> set MEDIA \<and>
   set (aCustomStyleClasses (fst (p_updateMediaStyle (Some ''sapFIllustratedMessage-Dialog'')
      (p_updateMediaStyle (Some ''sapFIllustratedMessage-Spot'') message0))))
     \<inter> snd ` set MEDIA = {''sapFIllustratedMessage-Dialog''} \<and>
   agg_illustration (fst (p_updateMediaStyle (Some ''sapFIllustratedMessage-Dialog'') message0)) =
     Some \<lparr>ill_oid = 0, ill_set = Some ''sapIllus'', ill_media = Some ''Dialog'',
           ill_type = Some ''NoSearchResults''\<rparr>"
proof -
  have mem: "(''DIALOG'', ''sapFIllustratedMessage-Dialog'') \<in> set MEDIA"
    by (simp add: MEDIA_def)
  have "agg_illustration (fst (p_updateMediaStyle (Some ''sapFIllustratedMessage-Dialog'') message0)) =
     Some \<lparr>ill_oid = 0, ill_set = Some ''sapIllus'', ill_media = Some ''Dialog'',
           ill_type = Some ''NoSearchResults''\<rparr>"
    using updateMediaStyle_effect [OF mem, of message0]
    by (simp add: message0_value new_Illustration_def toLowerCase_names)
  then show ?thesis
    using mem updateMediaStyle_effect [OF mem,
        of "p_updateMediaStyle (Some ''sapFIllustratedMessage-Spot'') message0"]
    by simp
qed

subsection \<open>Splitting the illustration type\<close>

lemma js_split_not_Nil: "js_split sep s \<noteq> []"
  by (induction s) (auto split: list.splits)

lemma hd_js_split: "hd (js_split sep s) = takeWhile (\<lambda>c. c \<noteq> sep) s"
  by (induction s) (auto split: list.splits simp: js_split_not_Nil)

lemma tl_js_split:
  "tl (js_split sep s) =
     (if sep \<in> set s then js_split sep (drop 1 (dropWhile (\<lambda>c. c \<noteq> sep) s)) else [])"
  by (induction s) (auto split: list.splits simp: js_split_not_Nil)

lemma js_index_split_0:
  "js_index (js_split sep s) 0 = Some (takeWhile (\<lambda>c. c \<noteq> sep) s)"
proof -
  obtain w ws where "js_split sep s = w # ws"
    using js_split_not_Nil [of sep s] by (cases "js_split sep s") auto
  then show ?thesis
    using hd_js_split [of sep s] by (simp add: js_index_def)
qed

lemma js_index_split_1:
  "js_index (js_split sep s) 1 =
     (if sep \<in> set s
      then Some (takeWhile (\<lambda>c. c \<noteq> sep) (drop 1 (dropWhile (\<lambda>c. c \<noteq> sep) s)))
      else None)"
proof -
  obtain w ws where ws: "js_split sep s = w # ws"
    using js_split_not_Nil [of sep s] by (cases "js_split sep s") auto
  show ?thesis
  proof (cases "sep \<in> set s")
    case True
    let ?r = "drop 1 (dropWhile (\<lambda>c. c \<noteq> sep) s)"
    from True ws have "ws = js_split sep ?r"
      using tl_js_split [of sep s] by simp
    moreover obtain v vs where "js_split sep ?r = v # vs"
      using js_split_not_Nil [of sep ?r] by (cases "js_split sep ?r") auto
    ultimately show ?thesis
      using True ws hd_js_split [of sep ?r] by (simp add: js_index_def)
  next
    case False
    with ws show ?thesis
      using tl_js_split [of sep s] by (simp add: js_index_def)
  qed
qed

lemma updateInternal_cache:
  "sIllustrationSet (p_updateInternalIllustrationSetAndType v c) = Some (segment_before_first_dash v)"
  "sIllustrationType (p_updateInternalIllustrationSetAndType v c) =
     (if CHR ''-'' \<in> set v then Some (segment_after_first_dash v) else None)"
  "illustrationType (p_updateInternalIllustrationSetAndType v c) = illustrationType c"
  by (simp_all add: p_updateInternalIllustrationSetAndType_def Let_def js_index_split_0
        js_index_split_1 [unfolded One_nat_def] segment_before_first_dash_def segment_after_first_dash_def)

text \<open>
  C2, as the code has it. \<^verbatim>\<open>init\<close> and \<^verbatim>\<open>setIllustrationType\<close> keep the cache in
  step with the \<^verbatim>\<open>illustrationType\<close> property \<open>v\<close>: the cached set is the segment of
  \<open>v\<close> before the first "-"; the cached type is, when \<open>v\<close> contains a "-", the segment
  between the first "-" and the second (or the end of \<open>v\<close>), and undefined when \<open>v\<close>
  contains no "-".
\<close>

theorem illustration_cache_by_split:
  "cache_consistent (init c) \<and>
   (cache_consistent c \<longrightarrow>
      cache_consistent (setIllustrationType v c) \<and>
      illustrationType (setIllustrationType v c) = v \<and>
      sIllustrationSet (setIllustrationType v c) = Some (segment_before_first_dash v) \<and>
      (CHR ''-'' \<in> set v \<longrightarrow>
         sIllustrationType (setIllustrationType v c) = Some (segment_after_first_dash v)) \<and>
      (CHR ''-'' \<notin> set v \<longrightarrow> sIllustrationType (setIllustrationType v c) = None))"
  by (auto simp add: cache_consistent_def init_def setIllustrationType_def updateInternal_cache)

theorem illustration_cache_by_split_witness:
  "cache_consistent (init (fst message0)) \<and>
   sIllustrationSet (setIllustrationType ''sapIllus-UnableToLoad'' (init (fst message0))) =
     Some ''sapIllus'' \<and>
   sIllustrationType (setIllustrationType ''sapIllus-UnableToLoad'' (init (fst message0))) =
     Some ''UnableToLoad'' \<and>
   sIllustrationType (setIllustrationType ''a-b-c'' (init (fst message0))) = Some ''b'' \<and>
   sIllustrationSet (setIllustrationType ''sapIllus'' (init (fst message0))) = Some ''sapIllus'' \<and>
   sIllustrationType (setIllustrationType ''sapIllus'' (init (fst message0))) = None"
proof -
  have c: "cache_consistent (init (fst message0))"
    using illustration_cache_by_split [of "fst message0"] by simp
  show ?thesis
    using c illustration_cache_by_split [of "init (fst message0)" "''sapIllus-UnableToLoad''"]
      illustration_cache_by_split [of "init (fst message0)" "''a-b-c''"]
      illustration_cache_by_split [of "init (fst message0)" "''sapIllus''"]
    by (simp add: segment_before_first_dash_def segment_after_first_dash_def)
qed

text \<open>
  The claim as it was stated fails for a type without "-": after
  \<^verbatim>\<open>setIllustrationType("sapIllus")\<close> the cached type is undefined, and not the
  (empty) text after the first "-".
\<close>

theorem illustration_type_without_dash_counterexample:
  "sIllustrationType (setIllustrationType ''sapIllus'' (fst message0)) \<noteq>
     Some (segment_after_first_dash ''sapIllus'')"
  by (simp add: setIllustrationType_def message0_value updateInternal_cache)

subsection \<open>Default texts\<close>

text \<open>
  C3. \<^verbatim>\<open>_getText\<close>, and \<^verbatim>\<open>_getFormattedText\<close>, which \<^verbatim>\<open>_getDescription\<close> calls
  when \<^verbatim>\<open>enableFormattedText\<close> is true, give the child held by the aggregation the
  text of the \<^verbatim>\<open>description\<close> property when that is not empty, and otherwise the
  text of the resource bundle for the key "IllustratedMessage_DESCRIPTION_" followed by
  the cached illustration type.
\<close>

theorem description_text_default:
  "(description (fst s) = [] \<longrightarrow>
      text_text (fst (p_getText rb s)) =
        rb (str_plus ''IllustratedMessage_DESCRIPTION_'' (sIllustrationType (fst s))) \<and>
      htmlText (fst (p_getFormattedText rb s)) =
        rb (str_plus ''IllustratedMessage_DESCRIPTION_'' (sIllustrationType (fst s)))) \<and>
   (description (fst s) \<noteq> [] \<longrightarrow>
      text_text (fst (p_getText rb s)) = Some (description (fst s)) \<and>
      htmlText (fst (p_getFormattedText rb s)) = Some (description (fst s))) \<and>
   agg_text (fst (snd (p_getText rb s))) = Some (fst (p_getText rb s)) \<and>
   agg_formattedText (fst (snd (p_getFormattedText rb s))) = Some (fst (p_getFormattedText rb s)) \<and>
   (enableFormattedText (fst s) \<longrightarrow>
      p_getDescription rb s = (Inl (fst (p_getFormattedText rb s)), snd (p_getFormattedText rb s))) \<and>
   (\<not> enableFormattedText (fst s) \<longrightarrow>
      p_getDescription rb s = (Inr (fst (p_getText rb s)), snd (p_getText rb s))) \<and>
   (\<forall>t. sIllustrationType (fst s) = Some t \<longrightarrow>
      str_plus ''IllustratedMessage_DESCRIPTION_'' (sIllustrationType (fst s)) =
        ''IllustratedMessage_DESCRIPTION_'' @ t)"
  by (auto simp add: p_getText_def p_getFormattedText_def p_getDescription_def
        p_getDefaultDescription_def PREPENDS_DESCRIPTION_def setText_def setHtmlText_def
        new_Text_def new_FormattedText_def str_plus_def Let_def
        split: option.splits prod.splits)

theorem description_text_default_witness:
  "description (fst message0) = [] \<and>
   text_text (fst (p_getText bundle0 message0)) = Some ''Try changing your search criteria.'' \<and>
   description (fst message0\<lparr>description := ''Nothing here''\<rparr>) \<noteq> [] \<and>
   htmlText (fst (p_getFormattedText bundle0
      (fst message0\<lparr>description := ''Nothing here''\<rparr>, snd message0))) = Some ''Nothing here''"
proof -
  have d: "description (fst message0) = []"
    by (simp add: message0_value)
  have "text_text (fst (p_getText bundle0 message0)) =
      bundle0 (str_plus ''IllustratedMessage_DESCRIPTION_'' (sIllustrationType (fst message0)))"
    using d description_text_default [of message0 bundle0] by (elim conjE) simp
  moreover have "htmlText (fst (p_getFormattedText bundle0
      (fst message0\<lparr>description := ''Nothing here''\<rparr>, snd message0))) = Some ''Nothing here''"
    using description_text_default
      [of "(fst message0\<lparr>description := ''Nothing here''\<rparr>, snd message0)" bundle0]
    by (elim conjE) simp
  ultimately show ?thesis
    using d by (simp add: message0_value str_plus_def bundle0_def)
qed

text \<open>
  C4. \<^verbatim>\<open>_getTitle\<close> gives the Title held by the aggregation the text of the
  \<^verbatim>\<open>title\<close> property when that is not empty, and otherwise the text of the resource
  bundle for the key "IllustratedMessage_TITLE_" followed by the cached illustration type.
\<close>

theorem title_text_default:
  "(title (fst s) = [] \<longrightarrow>
      title_text (fst (p_getTitle rb s)) =
        rb (str_plus ''IllustratedMessage_TITLE_'' (sIllustrationType (fst s)))) \<and>
   (title (fst s) \<noteq> [] \<longrightarrow> title_text (fst (p_getTitle rb s)) = Some (title (fst s))) \<and>
   agg_title (fst (snd (p_getTitle rb s))) = Some (fst (p_getTitle rb s)) \<and>
   (\<forall>t. sIllustrationType (fst s) = Some t \<longrightarrow>
      str_plus ''IllustratedMessage_TITLE_'' (sIllustrationType (fst s)) =
        ''IllustratedMessage_TITLE_'' @ t)"
  by (auto simp add: p_getTitle_def PREPENDS_TITLE_def Title_setText_def new_Title_def
        str_plus_def Let_def split: option.splits prod.splits)

theorem title_text_default_witness:
  "title (fst message0) = [] \<and>
   title_text (fst (p_getTitle bundle0 message0)) = Some ''No Results Found'' \<and>
   title (fst message0\<lparr>title := ''Empty''\<rparr>) \<noteq> [] \<and>
   title_text (fst (p_getTitle bundle0 (fst message0\<lparr>title := ''Empty''\<rparr>, snd message0))) =
     Some ''Empty''"
proof -
  have d: "title (fst message0) = []"
    by (simp add: message0_value)
  have "title_text (fst (p_getTitle bundle0 message0)) =
      bundle0 (str_plus ''IllustratedMessage_TITLE_'' (sIllustrationType (fst message0)))"
    using d title_text_default [of message0 bundle0] by (elim conjE) simp
  moreover have "title_text (fst (p_getTitle bundle0
      (fst message0\<lparr>title := ''Empty''\<rparr>, snd message0))) = Some ''Empty''"
    using title_text_default [of "(fst message0\<lparr>title := ''Empty''\<rparr>, snd message0)" bundle0]
    by (elim conjE) simp
  ultimately show ?thesis
    using d by (simp add: message0_value str_plus_def bundle0_def)
qed

subsection \<open>Lazy creation of the hidden aggregations\<close>

text \<open>
  C5. Each getter of a hidden aggregation constructs a child only when the aggregation
  is empty: the child then has a new identity and is stored. When the aggregation holds
  a child, the getter returns that one (the same identity) and constructs nothing. The
  getter called again returns the same object and leaves the state, and so the count of
  constructed objects, as the first call left it.
\<close>

theorem hidden_aggregation_getters_lazy:
  "(agg_illustration (fst s) = None \<longrightarrow>
      ill_oid (fst (p_getIllustration s)) = objCount (snd s) \<and>
      objCount (snd (snd (p_getIllustration s))) = Suc (objCount (snd s))) \<and>
   (\<forall>x. agg_illustration (fst s) = Some x \<longrightarrow> p_getIllustration s = (x, s)) \<and>
   agg_illustration (fst (snd (p_getIllustration s))) = Some (fst (p_getIllustration s)) \<and>
   p_getIllustration (snd (p_getIllustration s)) = p_getIllustration s \<and>
   (agg_text (fst s) = None \<longrightarrow>
      text_oid (fst (p_getText rb s)) = objCount (snd s) \<and>
      objCount (snd (snd (p_getText rb s))) = Suc (objCount (snd s))) \<and>
   (\<forall>x. agg_text (fst s) = Some x \<longrightarrow>
      text_oid (fst (p_getText rb s)) = text_oid x \<and> snd (snd (p_getText rb s)) = snd s) \<and>
   agg_text (fst (snd (p_getText rb s))) = Some (fst (p_getText rb s)) \<and>
   p_getText rb (snd (p_getText rb s)) = p_getText rb s \<and>
   (agg_formattedText (fst s) = None \<longrightarrow>
      ftext_oid (fst (p_getFormattedText rb s)) = objCount (snd s) \<and>
      objCount (snd (snd (p_getFormattedText rb s))) = Suc (objCount (snd s))) \<and>
   (\<forall>x. agg_formattedText (fst s) = Some x \<longrightarrow>
      ftext_oid (fst (p_getFormattedText rb s)) = ftext_oid x \<and>
      snd (snd (p_getFormattedText rb s)) = snd s) \<and>
   agg_formattedText (fst (snd (p_getFormattedText rb s))) = Some (fst (p_getFormattedText rb s)) \<and>
   p_getFormattedText rb (snd (p_getFormattedText rb s)) = p_getFormattedText rb s \<and>
   (agg_title (fst s) = None \<longrightarrow>
      title_oid (fst (p_getTitle rb s)) = objCount (snd s) \<and>
      objCount (snd (snd (p_getTitle rb s))) = Suc (objCount (snd s))) \<and>
   (\<forall>x. agg_title (fst s) = Some x \<longrightarrow>
      title_oid (fst (p_getTitle rb s)) = title_oid x \<and> snd (snd (p_getTitle rb s)) = snd s) \<and>
   agg_title (fst (snd (p_getTitle rb s))) = Some (fst (p_getTitle rb s)) \<and>
   p_getTitle rb (snd (p_getTitle rb s)) = p_getTitle rb s"
proof -
  have ill: "(agg_illustration (fst s) = None \<longrightarrow>
      ill_oid (fst (p_getIllustration s)) = objCount (snd s) \<and>
      objCount (snd (snd (p_getIllustration s))) = Suc (objCount (snd s))) \<and>
   (\<forall>x. agg_illustration (fst s) = Some x \<longrightarrow> p_getIllustration s = (x, s)) \<and>
   agg_illustration (fst (snd (p_getIllustration s))) = Some (fst (p_getIllustration s)) \<and>
   p_getIllustration (snd (p_getIllustration s)) = p_getIllustration s"
    by (cases "agg_illustration (fst s)")
       (simp_all add: p_getIllustration_def new_Illustration_def Let_def)
  have tx: "(agg_text (fst s) = None \<longrightarrow>
      text_oid (fst (p_getText rb s)) = objCount (snd s) \<and>
      objCount (snd (snd (p_getText rb s))) = Suc (objCount (snd s))) \<and>
   (\<forall>x. agg_text (fst s) = Some x \<longrightarrow>
      text_oid (fst (p_getText rb s)) = text_oid x \<and> snd (snd (p_getText rb s)) = snd s) \<and>
   agg_text (fst (snd (p_getText rb s))) = Some (fst (p_getText rb s)) \<and>
   p_getText rb (snd (p_getText rb s)) = p_getText rb s"
    by (cases "agg_text (fst s)")
       (simp_all add: p_getText_def new_Text_def setText_def p_getDefaultDescription_def Let_def)
  have ftxt: "(agg_formattedText (fst s) = None \<longrightarrow>
      ftext_oid (fst (p_getFormattedText rb s)) = objCount (snd s) \<and>
      objCount (snd (snd (p_getFormattedText rb s))) = Suc (objCount (snd s))) \<and>
   (\<forall>x. agg_formattedText (fst s) = Some x \<longrightarrow>
      ftext_oid (fst (p_getFormattedText rb s)) = ftext_oid x \<and>
      snd (snd (p_getFormattedText rb s)) = snd s) \<and>
   agg_formattedText (fst (snd (p_getFormattedText rb s))) = Some (fst (p_getFormattedText rb s)) \<and>
   p_getFormattedText rb (snd (p_getFormattedText rb s)) = p_getFormattedText rb s"
    by (cases "agg_formattedText (fst s)")
       (simp_all add: p_getFormattedText_def new_FormattedText_def setHtmlText_def
          p_getDefaultDescription_def Let_def)
  have ttl: "(agg_title (fst s) = None \<longrightarrow>
      title_oid (fst (p_getTitle rb s)) = objCount (snd s) \<and>
      objCount (snd (snd (p_getTitle rb s))) = Suc (objCount (snd s))) \<and>
   (\<forall>x. agg_title (fst s) = Some x \<longrightarrow>
      title_oid (fst (p_getTitle rb s)) = title_oid x \<and> snd (snd (p_getTitle rb s)) = snd s) \<and>
   agg_title (fst (snd (p_getTitle rb s))) = Some (fst (p_getTitle rb s)) \<and>
   p_getTitle rb (snd (p_getTitle rb s)) = p_getTitle rb s"
    by (cases "agg_title (fst s)")
       (simp_all add: p_getTitle_def new_Title_def Title_setText_def Let_def)
  from ill tx ftxt ttl show ?thesis
    by (elim conjE) (intro conjI; assumption)
qed

lemma getText_message0:
  "p_getText bundle0 message0 =
     (\<lparr>text_oid = 0, text_text = Some ''Try changing your search criteria.''\<rparr>,
      (fst message0\<lparr>agg_text :=
          Some \<lparr>text_oid = 0, text_text = Some ''Try changing your search criteria.''\<rparr>\<rparr>,
       snd message0\<lparr>objCount := 1\<rparr>))"
  unfolding message0_value
  by (simp add: p_getText_def p_getDefaultDescription_def PREPENDS_DESCRIPTION_def str_plus_def
        bundle0_def new_Text_def setText_def Let_def)

theorem hidden_aggregation_getters_lazy_witness:
  "agg_text (fst message0) = None \<and>
   text_oid (fst (p_getText bundle0 message0)) = 0 \<and>
   objCount (snd (snd (p_getText bundle0 message0))) = 1 \<and>
   agg_text (fst (snd (p_getText bundle0 message0))) =
     Some \<lparr>text_oid = 0, text_text = Some ''Try changing your search criteria.''\<rparr> \<and>
   text_oid (fst (p_getText bundle0 (snd (p_getText bundle0 message0)))) = 0 \<and>
   objCount (snd (snd (p_getText bundle0 (snd (p_getText bundle0 message0))))) = 1"
proof -
  have again: "p_getText bundle0 (snd (p_getText bundle0 message0)) = p_getText bundle0 message0"
    using hidden_aggregation_getters_lazy [of message0 bundle0] by (elim conjE)
  have first: "agg_text (fst message0) = None"
    by (simp add: message0_value)
  show ?thesis
    using first
    by (simp only: again) (simp add: getText_message0)
qed

subsection \<open>The size of the rendered control\<close>

text \<open>The loop of \<^verbatim>\<open>_updateMediaStyle\<close> does not read the DOM reference.\<close>

lemma fold_body_domRef:
  "fold (updateMediaStyle_body cur) kvs ((fst s)\<lparr>domRef := d\<rparr>, snd s) =
     ((fst (fold (updateMediaStyle_body cur) kvs s))\<lparr>domRef := d\<rparr>,
      snd (fold (updateMediaStyle_body cur) kvs s))"
proof (induction kvs arbitrary: s)
  case Nil
  then show ?case by simp
next
  case (Cons kv kvs)
  have one: "updateMediaStyle_body cur kv ((fst s)\<lparr>domRef := d\<rparr>, snd s) =
      ((fst (updateMediaStyle_body cur kv s))\<lparr>domRef := d\<rparr>,
       snd (updateMediaStyle_body cur kv s))"
    by (cases "agg_illustration (fst s)") (auto simp add: updateMediaStyle_body_form)
  show ?case
    using Cons.IH [of "updateMediaStyle_body cur kv s"] by (simp add: one)
qed

lemma updateMediaStyle_domRef:
  "p_updateMediaStyle cur ((fst s)\<lparr>domRef := d\<rparr>, snd s) =
     ((fst (p_updateMediaStyle cur s))\<lparr>domRef := d\<rparr>, snd (p_updateMediaStyle cur s))"
  by (simp add: p_updateMediaStyle_def fold_body_domRef)

lemma MEDIA_at_sizes:
  "MEDIA_at (toUpperCase ''Base'') = Some ''sapFIllustratedMessage-Base''"
  "MEDIA_at (toUpperCase ''Spot'') = Some ''sapFIllustratedMessage-Spot''"
  "MEDIA_at (toUpperCase ''Dialog'') = Some ''sapFIllustratedMessage-Dialog''"
  "MEDIA_at (toUpperCase ''Scene'') = Some ''sapFIllustratedMessage-Scene''"
  by (simp_all add: MEDIA_at_def MEDIA_def toUpperCase_def upper_char_def upper_letters_def
        lower_letters_def)

text \<open>
  C6. Without a DOM reference \<^verbatim>\<open>_updateDomSize\<close> changes nothing. With a DOM
  reference of width \<open>w\<close>: when \<^verbatim>\<open>illustrationSize\<close> is Auto it is
  \<^verbatim>\<open>_updateMedia(w)\<close>; for every other size it is \<^verbatim>\<open>_updateMediaStyle\<close> with the
  entry of \<^verbatim>\<open>MEDIA\<close> under the uppercased size (the media style class of Base, Spot,
  Dialog and Scene), and the result is the same for every width \<open>w'\<close>.
\<close>

theorem updateDomSize_by_illustrationSize:
  "(domRef (fst s) = None \<longrightarrow> p_updateDomSize s = s) \<and>
   (\<forall>w. domRef (fst s) = Some w \<longrightarrow>
      (illustrationSize (fst s) = IllustratedMessageSize_Auto \<longrightarrow>
         p_updateDomSize s = p_updateMedia w s) \<and>
      (illustrationSize (fst s) \<noteq> IllustratedMessageSize_Auto \<longrightarrow>
         p_updateDomSize s =
           p_updateMediaStyle (MEDIA_at (toUpperCase (illustrationSize (fst s)))) s \<and>
         (\<forall>w'. p_updateDomSize ((fst s)\<lparr>domRef := Some w'\<rparr>, snd s) =
            ((fst (p_updateDomSize s))\<lparr>domRef := Some w'\<rparr>, snd (p_updateDomSize s))))) \<and>
   MEDIA_at (toUpperCase ''Base'') = Some ''sapFIllustratedMessage-Base'' \<and>
   MEDIA_at (toUpperCase ''Spot'') = Some ''sapFIllustratedMessage-Spot'' \<and>
   MEDIA_at (toUpperCase ''Dialog'') = Some ''sapFIllustratedMessage-Dialog'' \<and>
   MEDIA_at (toUpperCase ''Scene'') = Some ''sapFIllustratedMessage-Scene''"
  by (simp add: p_updateDomSize_def Let_def updateMediaStyle_domRef MEDIA_at_sizes)

theorem updateDomSize_by_illustrationSize_witness:
  "p_updateDomSize message0 = message0 \<and>
   aCustomStyleClasses (fst (p_updateDomSize
      (fst message0\<lparr>domRef := Some (Finite 300)\<rparr>, snd message0))) =
     [''sapFIllustratedMessage-Spot''] \<and>
   aCustomStyleClasses (fst (p_updateDomSize
      (fst message0\<lparr>illustrationSize := ''Scene'', domRef := Some (Finite 300)\<rparr>, snd message0))) =
     [''sapFIllustratedMessage-Scene'']"
proof -
  let ?a = "(fst message0\<lparr>domRef := Some (Finite 300)\<rparr>, snd message0)"
  let ?b = "(fst message0\<lparr>illustrationSize := ''Scene'', domRef := Some (Finite 300)\<rparr>, snd message0)"
  have da: "domRef (fst ?a) = Some (Finite 300)"
    and sa: "illustrationSize (fst ?a) = IllustratedMessageSize_Auto"
    and db: "domRef (fst ?b) = Some (Finite 300)"
    and sb: "illustrationSize (fst ?b) = ''Scene''"
    and d0: "domRef (fst message0) = None"
    by (simp_all add: message0_value IllustratedMessageSize_Auto_def)
  have sb': "illustrationSize (fst ?b) \<noteq> IllustratedMessageSize_Auto"
    unfolding sb by (simp add: IllustratedMessageSize_Auto_def)
  have r0: "p_updateDomSize message0 = message0"
    using updateDomSize_by_illustrationSize [of message0] d0 by blast
  have ra: "p_updateDomSize ?a = p_updateMedia (Finite 300) ?a"
    using updateDomSize_by_illustrationSize [of ?a] da sa by blast
  have rb: "p_updateDomSize ?b =
      p_updateMediaStyle (MEDIA_at (toUpperCase (illustrationSize (fst ?b)))) ?b"
    using updateDomSize_by_illustrationSize [of ?b] db sb' by blast
  have spot: "p_updateMedia (Finite 300) ?a =
      p_updateMediaStyle (Some ''sapFIllustratedMessage-Spot'') ?a"
    by (simp add: p_updateMedia_def BREAK_POINTS_BASE_def BREAK_POINTS_SPOT_def
          MEDIA_at_def MEDIA_def)
  have a: "aCustomStyleClasses (fst (p_updateMediaStyle (Some ''sapFIllustratedMessage-Spot'') ?a)) =
      [''sapFIllustratedMessage-Spot'']"
    by (simp add: updateMediaStyle_domRef updateMediaStyle_message0)
  have b: "aCustomStyleClasses (fst (p_updateMediaStyle (Some ''sapFIllustratedMessage-Scene'') ?b)) =
      [''sapFIllustratedMessage-Scene'']"
    unfolding message0_value
    by (simp add: p_updateMediaStyle_def MEDIA_def MEDIA_at_def updateMediaStyle_body_form)
  have rb': "p_updateDomSize ?b = p_updateMediaStyle (Some ''sapFIllustratedMessage-Scene'') ?b"
    unfolding rb sb MEDIA_at_sizes ..
  show ?thesis
    unfolding r0 ra spot a rb' b by simp
qed

subsection \<open>The resize handler over the life of the control\<close>

text \<open>What the listeners of the control depend on is written by the resize handler
  methods only.\<close>

lemma updateMedia_handler_frame:
  "sId (fst (p_updateMedia w s)) = sId (fst s) \<and>
   sContentResizeHandlerId (fst (p_updateMedia w s)) = sContentResizeHandlerId (fst s) \<and>
   aResizeListeners (snd (p_updateMedia w s)) = aResizeListeners (snd s) \<and>
   domRef (fst (p_updateMedia w s)) = domRef (fst s) \<and>
   illustrationSize (fst (p_updateMedia w s)) = illustrationSize (fst s)"
  by (simp add: p_updateMedia_def updateMediaStyle_frame)

lemma updateDomSize_handler_frame:
  "sId (fst (p_updateDomSize s)) = sId (fst s) \<and>
   sContentResizeHandlerId (fst (p_updateDomSize s)) = sContentResizeHandlerId (fst s) \<and>
   aResizeListeners (snd (p_updateDomSize s)) = aResizeListeners (snd s) \<and>
   domRef (fst (p_updateDomSize s)) = domRef (fst s) \<and>
   illustrationSize (fst (p_updateDomSize s)) = illustrationSize (fst s)"
  by (simp add: p_updateDomSize_def Let_def updateMediaStyle_frame updateMedia_handler_frame
        split: option.splits)

lemma getters_handler_frame:
  "sId (fst (snd (p_getDescription rb s))) = sId (fst s) \<and>
   sContentResizeHandlerId (fst (snd (p_getDescription rb s))) = sContentResizeHandlerId (fst s) \<and>
   aResizeListeners (snd (snd (p_getDescription rb s))) = aResizeListeners (snd s)"
  "sId (fst (snd (p_getTitle rb s))) = sId (fst s) \<and>
   sContentResizeHandlerId (fst (snd (p_getTitle rb s))) = sContentResizeHandlerId (fst s) \<and>
   aResizeListeners (snd (snd (p_getTitle rb s))) = aResizeListeners (snd s)"
  "sId (fst (snd (p_getIllustration s))) = sId (fst s) \<and>
   sContentResizeHandlerId (fst (snd (p_getIllustration s))) = sContentResizeHandlerId (fst s) \<and>
   aResizeListeners (snd (snd (p_getIllustration s))) = aResizeListeners (snd s)"
  by (simp_all add: p_getDescription_def p_getText_def p_getFormattedText_def p_getTitle_def
        p_getIllustration_def new_Text_def new_FormattedText_def new_Title_def
        new_Illustration_def Let_def split: option.splits prod.splits)

lemma setIllustrationType_handler_frame:
  "sId (setIllustrationType v c) = sId c \<and>
   sContentResizeHandlerId (setIllustrationType v c) = sContentResizeHandlerId c"
  by (simp add: setIllustrationType_def p_updateInternalIllustrationSetAndType_def Let_def)

text \<open>Detaching leaves no listener of the control; attaching adds one when the member
  is empty, the control is rendered and the size is Auto.\<close>

lemma listeners_without:
  "map fst (filter (\<lambda>l. snd l = a) (filter (\<lambda>l. fst l \<noteq> h) xs)) =
     filter (\<lambda>i. i \<noteq> h) (map fst (filter (\<lambda>l. snd l = a) xs))"
  by (induction xs) auto

lemma detach_clears:
  assumes "handler_inv s"
  shows "sContentResizeHandlerId (fst (p_detachResizeHandlers s)) = None \<and>
         listeners_of (p_detachResizeHandlers s) = [] \<and>
         handler_inv (p_detachResizeHandlers s)"
proof (cases "sContentResizeHandlerId (fst s)")
  case None
  with assms show ?thesis
    by (simp add: p_detachResizeHandlers_def p_deRegisterResizeHandler_def handler_inv_def)
next
  case (Some h)
  with assms have l: "map fst (filter (\<lambda>l. snd l = sId (fst s)) (aResizeListeners (snd s))) = [h]"
    by (simp add: handler_inv_def listeners_of_def)
  have "map fst (filter (\<lambda>l. snd l = sId (fst s)) (filter (\<lambda>l. fst l \<noteq> h) (aResizeListeners (snd s)))) = []"
    by (simp only: listeners_without l) simp
  with Some show ?thesis
    by (simp add: p_detachResizeHandlers_def p_deRegisterResizeHandler_def handler_inv_def
          listeners_of_def ResizeHandler_deregister_def)
qed

lemma attach_registers:
  assumes "handler_inv s"
  shows "handler_inv (p_attachResizeHandlers s) \<and>
         (sContentResizeHandlerId (fst s) = None \<longrightarrow>
            (listeners_of (p_attachResizeHandlers s) \<noteq> []) =
              (illustrationSize (fst s) = IllustratedMessageSize_Auto \<and> domRef (fst s) \<noteq> None))"
  using assms
  by (auto simp add: p_attachResizeHandlers_def p_registerResizeHandler_def handler_inv_def
        listeners_of_def ResizeHandler_register_def Let_def split: option.splits)

lemma handler_inv_frame:
  assumes "sId (fst t) = sId (fst s)"
      and "sContentResizeHandlerId (fst t) = sContentResizeHandlerId (fst s)"
      and "aResizeListeners (snd t) = aResizeListeners (snd s)"
  shows "handler_inv t = handler_inv s" and "listeners_of t = listeners_of s"
  using assms by (simp_all add: handler_inv_def listeners_of_def)

lemma handler_inv_step: "handler_inv s \<Longrightarrow> handler_inv (step rb e s)"
proof (cases e)
  case OnBeforeRendering
  assume "handler_inv s"
  then show ?thesis
    using OnBeforeRendering detach_clears [of s] by (simp add: onBeforeRendering_def)
next
  case OnAfterRendering
  assume "handler_inv s"
  then have "handler_inv (p_updateDomSize s)"
    using handler_inv_frame(1) [of "p_updateDomSize s" s] updateDomSize_handler_frame [of s]
    by simp
  then show ?thesis
    using OnAfterRendering attach_registers [of "p_updateDomSize s"]
    by (simp add: onAfterRendering_def)
next
  case Exit
  assume "handler_inv s"
  then show ?thesis
    using Exit detach_clears [of s] by (simp add: exit_def)
next
  case (SetIllustrationType v)
  assume "handler_inv s"
  then show ?thesis
    using SetIllustrationType setIllustrationType_handler_frame [of v "fst s"]
    by (simp add: handler_inv_def listeners_of_def)
next
  case (SetIllustrationSize v)
  assume "handler_inv s"
  then show ?thesis
    using SetIllustrationSize by (simp add: handler_inv_def listeners_of_def)
next
  case (Rendered d)
  assume "handler_inv s"
  then show ?thesis
    using Rendered by (simp add: handler_inv_def listeners_of_def)
next
  case (OnResize w)
  assume "handler_inv s"
  then show ?thesis
    using OnResize handler_inv_frame(1) [of "p_updateMedia w s" s] updateMedia_handler_frame [of w s]
    by (simp add: p_onResize_def)
next
  case GetDescription
  assume "handler_inv s"
  then show ?thesis
    using GetDescription handler_inv_frame(1) [of "snd (p_getDescription rb s)" s]
      getters_handler_frame(1) [of rb s]
    by simp
next
  case GetTitle
  assume "handler_inv s"
  then show ?thesis
    using GetTitle handler_inv_frame(1) [of "snd (p_getTitle rb s)" s]
      getters_handler_frame(2) [of rb s]
    by simp
next
  case GetIllustration
  assume "handler_inv s"
  then show ?thesis
    using GetIllustration handler_inv_frame(1) [of "snd (p_getIllustration s)" s]
      getters_handler_frame(3) [of s]
    by simp
qed

lemma handler_inv_run: "handler_inv s \<Longrightarrow> handler_inv (run rb evs s)"
  unfolding run_def by (induction evs arbitrary: s) (simp_all add: handler_inv_step)

lemma run_append: "run rb (evs @ evs') s = run rb evs' (run rb evs s)"
  by (simp add: run_def)

lemma run_Cons: "run rb (e # evs) s = run rb evs (step rb e s)"
  by (simp add: run_def)

text \<open>Only \<^verbatim>\<open>onAfterRendering\<close> fills the handler member.\<close>

lemma no_handler_step:
  assumes "e \<noteq> OnAfterRendering" and "sContentResizeHandlerId (fst s) = None"
  shows "sContentResizeHandlerId (fst (step rb e s)) = None"
  using assms updateMedia_handler_frame getters_handler_frame
    setIllustrationType_handler_frame
  by (cases e)
     (simp_all add: onBeforeRendering_def exit_def p_detachResizeHandlers_def
        p_deRegisterResizeHandler_def p_onResize_def)

lemma no_handler_run:
  assumes "OnAfterRendering \<notin> set evs" and "sContentResizeHandlerId (fst s) = None"
  shows "sContentResizeHandlerId (fst (run rb evs s)) = None"
  using assms
proof (induction evs arbitrary: s)
  case Nil
  then show ?case by (simp add: run_def)
next
  case (Cons e evs)
  from Cons.prems have "e \<noteq> OnAfterRendering" and rest: "OnAfterRendering \<notin> set evs"
    by auto
  then have "sContentResizeHandlerId (fst (step rb e s)) = None"
    using Cons.prems(2) by (simp add: no_handler_step)
  then show ?case
    using Cons.IH [OF rest] by (simp add: run_def)
qed

lemma new_control_handler_inv:
  assumes "sid \<notin> snd ` set (aResizeListeners f)"
  shows "handler_inv (new_IllustratedMessage sid, f)"
proof -
  have "filter (\<lambda>l. snd l = sid) (aResizeListeners f) = []"
    using assms by (auto simp: filter_empty_conv)
  then show ?thesis
    by (simp add: handler_inv_def listeners_of_def new_IllustratedMessage_def init_def
          p_updateInternalIllustrationSetAndType_def Let_def)
qed

lemma sId_step: "sId (fst (step rb e s)) = sId (fst s)"
  using updateMedia_handler_frame updateDomSize_handler_frame getters_handler_frame
    setIllustrationType_handler_frame
  by (cases e)
     (simp_all add: onBeforeRendering_def exit_def onAfterRendering_def p_detachResizeHandlers_def
        p_deRegisterResizeHandler_def p_onResize_def p_attachResizeHandlers_def
        p_registerResizeHandler_def ResizeHandler_register_def Let_def
        split: option.splits prod.splits)

lemma sId_run: "sId (fst (run rb evs s)) = sId (fst s)"
  unfolding run_def by (induction evs arbitrary: s) (simp_all add: sId_step)

lemma listeners_of_Nil:
  "(listeners_of s = []) = (sId (fst s) \<notin> snd ` set (aResizeListeners (snd s)))"
  by (force simp add: listeners_of_def filter_empty_conv)

text \<open>
  C7. Take a new control with the id \<open>sid\<close>, for which no listener is registered yet,
  and let anything happen to it (\<open>evs\<close>). After \<^verbatim>\<open>onBeforeRendering\<close>, and after
  \<^verbatim>\<open>exit\<close>, and for as long as \<^verbatim>\<open>onAfterRendering\<close> is not called (\<open>mid\<close>), the
  handler member is empty and the \<^verbatim>\<open>ResizeHandler\<close> holds no listener of the control.
  \<^verbatim>\<open>onAfterRendering\<close>, called after \<^verbatim>\<open>onBeforeRendering\<close>, leaves a listener of the
  control registered if and only if \<^verbatim>\<open>illustrationSize\<close> is Auto and the control has a
  DOM reference; the handler member then names that listener.
\<close>

theorem resize_handler_lifecycle:
  assumes "sid \<notin> snd ` set (aResizeListeners f)"
      and "OnAfterRendering \<notin> set mid"
  shows "(let s = run rb (evs @ OnBeforeRendering # mid) (new_IllustratedMessage sid, f)
          in sContentResizeHandlerId (fst s) = None \<and>
             sid \<notin> snd ` set (aResizeListeners (snd s)) \<and>
             (sid \<in> snd ` set (aResizeListeners (snd (onAfterRendering s)))) =
               (illustrationSize (fst s) = IllustratedMessageSize_Auto \<and> domRef (fst s) \<noteq> None) \<and>
             handler_inv (onAfterRendering s)) \<and>
         (let s = run rb (evs @ Exit # mid) (new_IllustratedMessage sid, f)
          in sContentResizeHandlerId (fst s) = None \<and>
             sid \<notin> snd ` set (aResizeListeners (snd s)))"
proof -
  let ?s0 = "(new_IllustratedMessage sid, f)"
  have detached: "sContentResizeHandlerId (fst (run rb (evs @ e # mid) ?s0)) = None \<and>
      sid \<notin> snd ` set (aResizeListeners (snd (run rb (evs @ e # mid) ?s0))) \<and>
      handler_inv (run rb (evs @ e # mid) ?s0) \<and>
      sId (fst (run rb (evs @ e # mid) ?s0)) = sid"
    if e: "step rb e = p_detachResizeHandlers" for e
  proof -
    let ?s1 = "run rb evs ?s0"
    let ?s = "run rb (evs @ e # mid) ?s0"
    have inv1: "handler_inv ?s1"
      using assms(1) by (simp add: new_control_handler_inv handler_inv_run)
    have run: "?s = run rb mid (p_detachResizeHandlers ?s1)"
      by (simp add: run_append run_Cons e)
    have none: "sContentResizeHandlerId (fst ?s) = None"
      unfolding run using detach_clears [OF inv1] assms(2) by (simp add: no_handler_run)
    have inv: "handler_inv ?s"
      unfolding run using detach_clears [OF inv1] by (simp add: handler_inv_run)
    have sid: "sId (fst ?s) = sid"
      by (simp add: sId_run new_IllustratedMessage_def init_def
            p_updateInternalIllustrationSetAndType_def Let_def)
    from none inv have "listeners_of ?s = []"
      by (simp add: handler_inv_def)
    then have "sid \<notin> snd ` set (aResizeListeners (snd ?s))"
      by (simp add: listeners_of_Nil sid)
    with none inv sid show ?thesis
      by simp
  qed
  have before: "step rb OnBeforeRendering = p_detachResizeHandlers"
    by (rule ext) (simp add: onBeforeRendering_def)
  have exit: "step rb Exit = p_detachResizeHandlers"
    by (rule ext) (simp add: exit_def)
  let ?s = "run rb (evs @ OnBeforeRendering # mid) ?s0"
  have inv_dom: "handler_inv (p_updateDomSize ?s)"
    using detached [OF before] handler_inv_frame(1) [of "p_updateDomSize ?s" ?s]
      updateDomSize_handler_frame [of ?s]
    by simp
  have after: "(listeners_of (onAfterRendering ?s) \<noteq> []) =
      (illustrationSize (fst ?s) = IllustratedMessageSize_Auto \<and> domRef (fst ?s) \<noteq> None) \<and>
      handler_inv (onAfterRendering ?s)"
    using attach_registers [OF inv_dom] detached [OF before] updateDomSize_handler_frame [of ?s]
    by (simp add: onAfterRendering_def)
  have "sId (fst (onAfterRendering ?s)) = sid"
    using sId_step [of rb OnAfterRendering ?s] detached [OF before] by simp
  then have "(listeners_of (onAfterRendering ?s) \<noteq> []) =
      (sid \<in> snd ` set (aResizeListeners (snd (onAfterRendering ?s))))"
    by (simp add: listeners_of_Nil)
  with after detached [OF before] detached [OF exit] show ?thesis
    by (simp add: Let_def)
qed

theorem resize_handler_lifecycle_witness:
  "''__message0'' \<notin> snd ` set (aResizeListeners framework0) \<and>
   OnAfterRendering \<notin> set [Rendered (Some (Finite 500))] \<and>
   ''__message0'' \<in> snd ` set (aResizeListeners (snd (onAfterRendering
      (run bundle0 [OnBeforeRendering, Rendered (Some (Finite 500))] message0)))) \<and>
   ''__message0'' \<notin> snd ` set (aResizeListeners (snd
      (run bundle0 [OnBeforeRendering, Rendered (Some (Finite 500)), OnAfterRendering, Exit,
         Rendered (Some (Finite 500))] message0)))"
proof -
  have h1: "''__message0'' \<notin> snd ` set (aResizeListeners framework0)"
    by (simp add: framework0_def)
  have h2: "OnAfterRendering \<notin> set [Rendered (Some (Finite 500))]"
    by simp
  have s: "run bundle0 [OnBeforeRendering, Rendered (Some (Finite 500))] message0 =
      (fst message0\<lparr>domRef := Some (Finite 500)\<rparr>, snd message0)"
    by (simp add: run_def onBeforeRendering_def p_detachResizeHandlers_def
          p_deRegisterResizeHandler_def message0_value)
  have "''__message0'' \<in> snd ` set (aResizeListeners (snd (onAfterRendering
      (run bundle0 [OnBeforeRendering, Rendered (Some (Finite 500))] message0))))"
    using resize_handler_lifecycle [OF h1 h2, of bundle0 "[]"]
    by (simp add: Let_def message0_def [symmetric] s)
       (simp add: message0_value IllustratedMessageSize_Auto_def)
  moreover have "''__message0'' \<notin> snd ` set (aResizeListeners (snd
      (run bundle0 [OnBeforeRendering, Rendered (Some (Finite 500)), OnAfterRendering, Exit,
         Rendered (Some (Finite 500))] message0)))"
    using resize_handler_lifecycle [OF h1 h2, of bundle0
        "[OnBeforeRendering, Rendered (Some (Finite 500)), OnAfterRendering]"]
    by (simp add: Let_def message0_def [symmetric])
  ultimately show ?thesis
    using h1 by simp
qed

end
